theory Spec2Isabelle
  imports Main "HOL-Library.Word"
begin

unbundle bit_operations_syntax

section \<open>The XXH64 hash function\<close>

text \<open>
  Modelled from the spec: the function \<open>XXH64(pointer, length, seed) -> uint64\<close> of the
  xxHash library (section 6 of the specification, "Hash algorithm library"). The wrapper
  includes \<open>xxhash.h\<close> and calls \<open>XXH64\<close>; the library's text is not part of the
  wrapper's source file. The definitions below follow the library's reference
  implementation function by function (\<open>XXH_rotl64\<close>, \<open>XXH_readLE64\<close>,
  \<open>XXH64_round\<close>, \<open>XXH64_mergeRound\<close>, \<open>XXH64_avalanche\<close>, \<open>XXH64_finalize\<close>,
  \<open>XXH64_endian_align\<close>), on 64-bit words whose arithmetic wraps around.

  A pointer into the input is the list of the bytes from that position on; advancing
  the pointer by \<open>n\<close> is \<open>drop n\<close>. Reading past the end of the list stands for reading
  past the end of the buffer, which the library never does when \<open>len\<close> is the length of
  the buffer.
\<close>

type_synonym xxh_u8 = "8 word"
type_synonym xxh_u32 = "32 word"
type_synonym xxh_u64 = "64 word"

definition XXH_PRIME64_1 :: xxh_u64 where "XXH_PRIME64_1 = 0x9E3779B185EBCA87"
definition XXH_PRIME64_2 :: xxh_u64 where "XXH_PRIME64_2 = 0xC2B2AE3D27D4EB4F"
definition XXH_PRIME64_3 :: xxh_u64 where "XXH_PRIME64_3 = 0x165667B19E3779F9"
definition XXH_PRIME64_4 :: xxh_u64 where "XXH_PRIME64_4 = 0x85EBCA77C2B2AE63"
definition XXH_PRIME64_5 :: xxh_u64 where "XXH_PRIME64_5 = 0x27D4EB2F165667C5"

definition XXH_rotl64 :: "xxh_u64 \<Rightarrow> nat \<Rightarrow> xxh_u64" where
  "XXH_rotl64 x r = push_bit r x OR drop_bit (64 - r) x"

text \<open>Little-endian reads of four and of eight bytes.\<close>

definition XXH_readLE32 :: "xxh_u8 list \<Rightarrow> xxh_u32" where
  "XXH_readLE32 p =
     ucast (p ! 0) OR push_bit 8 (ucast (p ! 1)) OR push_bit 16 (ucast (p ! 2))
       OR push_bit 24 (ucast (p ! 3))"

definition XXH_readLE64 :: "xxh_u8 list \<Rightarrow> xxh_u64" where
  "XXH_readLE64 p =
     ucast (p ! 0) OR push_bit 8 (ucast (p ! 1)) OR push_bit 16 (ucast (p ! 2))
       OR push_bit 24 (ucast (p ! 3)) OR push_bit 32 (ucast (p ! 4))
       OR push_bit 40 (ucast (p ! 5)) OR push_bit 48 (ucast (p ! 6))
       OR push_bit 56 (ucast (p ! 7))"

definition XXH64_round :: "xxh_u64 \<Rightarrow> xxh_u64 \<Rightarrow> xxh_u64" where
  "XXH64_round acc input =
     XXH_rotl64 (acc + input * XXH_PRIME64_2) 31 * XXH_PRIME64_1"

definition XXH64_mergeRound :: "xxh_u64 \<Rightarrow> xxh_u64 \<Rightarrow> xxh_u64" where
  "XXH64_mergeRound acc val =
     (acc XOR XXH64_round 0 val) * XXH_PRIME64_1 + XXH_PRIME64_4"

definition XXH64_avalanche :: "xxh_u64 \<Rightarrow> xxh_u64" where
  "XXH64_avalanche hash =
     (let h1 = (hash XOR drop_bit 33 hash) * XXH_PRIME64_2;
          h2 = (h1 XOR drop_bit 29 h1) * XXH_PRIME64_3
      in h2 XOR drop_bit 32 h2)"

text \<open>
  The two loops of \<open>XXH64_finalize\<close>: \<open>while (len >= 8)\<close> over whole 8-byte words and
  \<open>while (len > 0)\<close> over the last bytes. Between them one 4-byte word is taken when
  \<open>len >= 4\<close>.
\<close>

fun XXH64_finalize_loop8 ::
  "xxh_u64 \<Rightarrow> xxh_u8 list \<Rightarrow> nat \<Rightarrow> xxh_u64 \<times> xxh_u8 list \<times> nat" where
  "XXH64_finalize_loop8 hash ptr len =
     (if len \<ge> 8
      then XXH64_finalize_loop8
             (XXH_rotl64 (hash XOR XXH64_round 0 (XXH_readLE64 ptr)) 27 * XXH_PRIME64_1
                + XXH_PRIME64_4)
             (drop 8 ptr) (len - 8)
      else (hash, ptr, len))"

fun XXH64_finalize_loop1 :: "xxh_u64 \<Rightarrow> xxh_u8 list \<Rightarrow> nat \<Rightarrow> xxh_u64" where
  "XXH64_finalize_loop1 hash ptr len =
     (if len > 0
      then XXH64_finalize_loop1
             (XXH_rotl64 (hash XOR ucast (hd ptr) * XXH_PRIME64_5) 11 * XXH_PRIME64_1)
             (tl ptr) (len - 1)
      else hash)"

definition XXH64_finalize :: "xxh_u64 \<Rightarrow> xxh_u8 list \<Rightarrow> nat \<Rightarrow> xxh_u64" where
  "XXH64_finalize hash ptr len =
     (case XXH64_finalize_loop8 hash ptr (len mod 32) of (h1, p1, l1) \<Rightarrow>
        (case (if l1 \<ge> 4
               then (XXH_rotl64 (h1 XOR ucast (XXH_readLE32 p1) * XXH_PRIME64_1) 23
                       * XXH_PRIME64_2 + XXH_PRIME64_3, drop 4 p1, l1 - 4)
               else (h1, p1, l1)) of (h2, p2, l2) \<Rightarrow>
           XXH64_avalanche (XXH64_finalize_loop1 h2 p2 l2)))"

text \<open>
  The \<open>do ... while (input < limit)\<close> loop over 32-byte stripes, with
  \<open>limit = bEnd - 31\<close> and \<open>bEnd = input + len\<close>: \<open>n\<close> is the distance from the
  pointer to \<open>bEnd\<close>. The body runs once, and again as long as at least 32 bytes are
  left. It returns the four accumulators and the pointer to the rest.
\<close>

function XXH64_stripes ::
  "xxh_u64 \<times> xxh_u64 \<times> xxh_u64 \<times> xxh_u64 \<Rightarrow> xxh_u8 list \<Rightarrow> nat
     \<Rightarrow> (xxh_u64 \<times> xxh_u64 \<times> xxh_u64 \<times> xxh_u64) \<times> xxh_u8 list" where
  "XXH64_stripes (v1, v2, v3, v4) input n =
     (let v1' = XXH64_round v1 (XXH_readLE64 input);
          v2' = XXH64_round v2 (XXH_readLE64 (drop 8 input));
          v3' = XXH64_round v3 (XXH_readLE64 (drop 16 input));
          v4' = XXH64_round v4 (XXH_readLE64 (drop 24 input));
          input' = drop 32 input;
          n' = n - 32
      in if 32 \<le> n' then XXH64_stripes (v1', v2', v3', v4') input' n'
         else ((v1', v2', v3', v4'), input'))"
  by pat_completeness auto
termination
  by (relation "measure (\<lambda>(v, input, n). n)") auto

definition XXH64_endian_align :: "xxh_u8 list \<Rightarrow> nat \<Rightarrow> xxh_u64 \<Rightarrow> xxh_u64" where
  "XXH64_endian_align input len seed =
     (case (if len \<ge> 32
            then (case XXH64_stripes
                         (seed + XXH_PRIME64_1 + XXH_PRIME64_2, seed + XXH_PRIME64_2,
                          seed + 0, seed - XXH_PRIME64_1) input len of
                    ((v1, v2, v3, v4), rest) \<Rightarrow>
                      (XXH64_mergeRound (XXH64_mergeRound (XXH64_mergeRound (XXH64_mergeRound
                         (XXH_rotl64 v1 1 + XXH_rotl64 v2 7 + XXH_rotl64 v3 12
                            + XXH_rotl64 v4 18) v1) v2) v3) v4, rest))
            else (seed + XXH_PRIME64_5, input)) of
        (h64, rest) \<Rightarrow> XXH64_finalize (h64 + of_nat len) rest len)"

definition XXH64 :: "xxh_u8 list \<Rightarrow> nat \<Rightarrow> xxh_u64 \<Rightarrow> xxh_u64" where
  "XXH64 input len seed = XXH64_endian_align input len seed"

text \<open>
  The buffer of the library's own self-test: 101 bytes, the top byte of a 32-bit
  generator that starts at 2654435761 and is squared at every step.
\<close>

fun fillTestBuffer :: "nat \<Rightarrow> 32 word \<Rightarrow> xxh_u8 list" where
  "fillTestBuffer 0 byteGen = []"
| "fillTestBuffer (Suc n) byteGen =
     ucast (drop_bit 24 byteGen) # fillTestBuffer n (byteGen * byteGen)"

definition sanityBuffer :: "xxh_u8 list" where
  "sanityBuffer = fillTestBuffer 101 2654435761"

section \<open>The host's arrays and argument lists\<close>

text \<open>
  Modelled from the spec: the host invocation boundary (section 6 of the specification,
  "a calling environment supplies one positional byte-array argument and expects one
  scalar 64-bit-unsigned-integer return value"). The types \<open>Array\<close>, \<open>TypedArray\<close>,
  \<open>ArgumentList\<close>, \<open>ArrayFactory\<close> and \<open>buffer_ptr_t\<close> come from the host's headers
  \<open>mex.hpp\<close> and \<open>mexAdapter.hpp\<close>, which the wrapper includes and which are not part of
  its source file. Their operations are modelled as the host documents them and as the
  wrapper's own text uses them (\<open>std::move\<close>, the comment "must call before release").

  An array is a reference-counted object in a store. An \<open>Array\<close> value is a handle:
  the address of the object, or nothing once the handle has been moved from. The
  store is a list indexed by address; a freed cell is \<open>None\<close>.
\<close>

datatype elements =
    UINT8_elements "xxh_u8 list"
  | UINT64_elements "xxh_u64 list"
  | Other_elements

record ArrayImpl =
  elements :: elements
  dimensions :: "nat list"
  use_count :: nat

type_synonym Array = "nat option"

record mex_state =
  heap :: "ArrayImpl option list"
  inputs :: "Array list"
  outputs :: "Array list"

text \<open>
  \<open>InvalidArrayTypeException\<close> is what the specification calls \<open>InvalidInput\<close>.
  \<open>Invalid_handle\<close> is no exception of the host: it marks a call on an empty or dangling
  handle, which the host never passes and C++ leaves undefined.
\<close>

datatype exception =
    InvalidArrayTypeException
  | ArgumentList_index_out_of_range
  | Invalid_handle

definition lookup :: "ArrayImpl option list \<Rightarrow> nat \<Rightarrow> ArrayImpl option" where
  "lookup h p = (if p < length h then h ! p else None)"

text \<open>\<open>ArgumentList::operator[]\<close>: an index past the end throws.\<close>

definition ArgumentList_index :: "Array list \<Rightarrow> nat \<Rightarrow> exception + Array" where
  "ArgumentList_index args i =
     (if i + 1 > length args then Inl ArgumentList_index_out_of_range else Inr (args ! i))"

text \<open>
  \<open>TypedArray<uint8_t>(Array&&)\<close>: the conversion succeeds on an array whose element
  type is \<open>uint8\<close> and throws on every other type. It gives the address, the array and
  its bytes.
\<close>

fun TypedArray_uint8 ::
  "ArrayImpl option list \<Rightarrow> Array \<Rightarrow> exception + (nat \<times> ArrayImpl \<times> xxh_u8 list)" where
  "TypedArray_uint8 h None = Inl Invalid_handle"
| "TypedArray_uint8 h (Some p) =
     (case lookup h p of
        None \<Rightarrow> Inl Invalid_handle
      | Some a \<Rightarrow>
          (case elements a of
             UINT8_elements bs \<Rightarrow> Inr (p, a, bs)
           | _ \<Rightarrow> Inl InvalidArrayTypeException))"

definition getNumberOfElements :: "ArrayImpl \<Rightarrow> nat" where
  "getNumberOfElements a = prod_list (dimensions a)"

text \<open>
  \<open>TypedArray::release\<close> hands the buffer to a \<open>buffer_ptr_t\<close>, a unique pointer whose
  deleter frees it when \<open>operator()\<close> returns. A shared array keeps its buffer for the
  other holders and the caller of \<open>release\<close> gets a copy; an unshared array gives its own
  buffer away and holds no elements afterwards. The store after \<open>release\<close> is the store
  as it is once the pointer and the emptied handle have gone out of scope: nothing
  reads the cell in between.
\<close>

definition release ::
  "ArrayImpl option list \<Rightarrow> nat \<Rightarrow> ArrayImpl \<Rightarrow> xxh_u8 list
     \<Rightarrow> xxh_u8 list \<times> ArrayImpl option list" where
  "release h p a bs =
     (if use_count a > 1 then (bs, h[p := Some (a\<lparr>use_count := use_count a - 1\<rparr>)])
      else (bs, h[p := None]))"

definition scalar_uint64 :: "xxh_u64 \<Rightarrow> ArrayImpl" where
  "scalar_uint64 v = \<lparr>elements = UINT64_elements [v], dimensions = [1, 1], use_count = 1\<rparr>"

text \<open>\<open>ArrayFactory::createScalar<uint64_t>\<close> allocates a 1-by-1 array at a new address.\<close>

definition createScalar_uint64 ::
  "ArrayImpl option list \<Rightarrow> xxh_u64 \<Rightarrow> ArrayImpl option list \<times> Array" where
  "createScalar_uint64 h v = (h @ [Some (scalar_uint64 v)], Some (length h))"

text \<open>Dropping a handle: one holder fewer, and the last holder frees the array.\<close>

fun destroy :: "ArrayImpl option list \<Rightarrow> Array \<Rightarrow> ArrayImpl option list" where
  "destroy h None = h"
| "destroy h (Some p) =
     (case lookup h p of
        None \<Rightarrow> h
      | Some a \<Rightarrow>
          if use_count a > 1 then h[p := Some (a\<lparr>use_count := use_count a - 1\<rparr>)]
          else h[p := None])"

section \<open>The wrapper\<close>

text \<open>
  \<open>MexFunction::operator()\<close>, statement by statement. \<open>std::move(inputs[0])\<close> leaves
  the first argument slot empty. The assignment to \<open>outputs[0]\<close> drops the handle that
  was there. \<open>seed\<close> is an \<open>unsigned long\<close> holding 0, widened to the 64-bit seed of
  \<open>XXH64\<close>. An exception ends the call; the state it leaves is not modelled.
\<close>

definition operator_call :: "mex_state \<Rightarrow> exception + mex_state" where
  "operator_call s =
     (let seed = 0 in
      case ArgumentList_index (inputs s) 0 of
        Inl e \<Rightarrow> Inl e
      | Inr a \<Rightarrow>
          (case TypedArray_uint8 (heap s) a of
             Inl e \<Rightarrow> Inl e
           | Inr (p, bytestream, bs) \<Rightarrow>
               (let inputs' = (inputs s)[0 := None];
                    nbytes = getNumberOfElements bytestream;
                    (pbytestream, h1) = release (heap s) p bytestream bs;
                    hash = XXH64 pbytestream nbytes seed;
                    (h2, mathash) = createScalar_uint64 h1 hash
                in case ArgumentList_index (outputs s) 0 of
                     Inl e \<Rightarrow> Inl e
                   | Inr old \<Rightarrow>
                       Inr \<lparr>heap = destroy h2 old, inputs = inputs',
                            outputs = (outputs s)[0 := mathash]\<rparr>)))"

section \<open>Reading a call\<close>

text \<open>
  The array behind the first argument; its bytes, when it is a \<open>uint8\<close> array whose
  number of elements is the length of its buffer; whether the first output slot can
  be assigned (it exists, and is empty or refers into the store); the array behind
  the first output slot after the call.
\<close>

definition first_arg :: "mex_state \<Rightarrow> ArrayImpl option" where
  "first_arg s = (case inputs s of Some p # _ \<Rightarrow> lookup (heap s) p | _ \<Rightarrow> None)"

fun is_uint8 :: "elements \<Rightarrow> bool" where
  "is_uint8 (UINT8_elements bs) = True"
| "is_uint8 _ = False"

definition uint8_arg :: "mex_state \<Rightarrow> xxh_u8 list option" where
  "uint8_arg s =
     (case first_arg s of
        None \<Rightarrow> None
      | Some a \<Rightarrow>
          (case elements a of
             UINT8_elements bs \<Rightarrow> if getNumberOfElements a = length bs then Some bs else None
           | _ \<Rightarrow> None))"

definition outputs_ready :: "mex_state \<Rightarrow> bool" where
  "outputs_ready s =
     (case outputs s of
        [] \<Rightarrow> False
      | None # _ \<Rightarrow> True
      | Some q # _ \<Rightarrow> q < length (heap s))"

definition returned :: "mex_state \<Rightarrow> ArrayImpl option" where
  "returned s = (case outputs s of Some q # _ \<Rightarrow> lookup (heap s) q | _ \<Rightarrow> None)"

section \<open>Known answers of XXH64\<close>

lemma XXH64_empty: "XXH64 [] 0 0 = 0xEF46DB3751D8E999"
  by code_simp

lemma XXH64_abc: "XXH64 [0x61, 0x62, 0x63] 3 0 = 0x44BC2CF5AD770999"
  by code_simp

text \<open>
  Two values of the library's self-test, on 14 and on 101 bytes: they run through the
  stripe loop, the merge rounds and every branch of \<open>XXH64_finalize\<close>.
\<close>

lemma XXH64_sanity_14: "XXH64 sanityBuffer 14 2654435761 = 0x5B9611585EFCC9CB"
  by code_simp

lemma XXH64_sanity_101: "XXH64 sanityBuffer 101 0 = 0x0EAB543384F878AD"
  by code_simp

section \<open>What a call on a byte array does\<close>

lemma lookup_destroy_fresh:
  "(\<forall>q. old = Some q \<longrightarrow> q < length h) \<Longrightarrow> length h = n
     \<Longrightarrow> lookup (destroy (h @ [x]) old) n = x"
  by (cases old) (auto simp: lookup_def nth_append split: option.splits)

lemma uint8_argD:
  assumes "uint8_arg s = Some data"
  obtains p rest a where "inputs s = Some p # rest" and "lookup (heap s) p = Some a"
    and "elements a = UINT8_elements data" and "getNumberOfElements a = length data"
  using assms unfolding uint8_arg_def first_arg_def
  by (auto split: list.splits option.splits elements.splits if_splits)

lemma outputs_readyD:
  assumes "outputs_ready s"
  obtains old outs where "outputs s = old # outs"
    and "\<forall>q. old = Some q \<longrightarrow> q < length (heap s)"
  using assms unfolding outputs_ready_def
  by (auto split: list.splits option.splits)

text \<open>The state after a call whose first argument is a \<open>uint8\<close> array.\<close>

lemma operator_call_state:
  assumes "inputs s = Some p # rest" and "lookup (heap s) p = Some a"
    and "elements a = UINT8_elements data" and "outputs s = old # outs"
  shows "operator_call s =
           Inr \<lparr>heap = destroy (snd (release (heap s) p a data)
                          @ [Some (scalar_uint64 (XXH64 data (getNumberOfElements a) 0))]) old,
                inputs = None # rest,
                outputs = Some (length (heap s)) # outs\<rparr>"
  using assms
  by (simp add: operator_call_def ArgumentList_index_def release_def createScalar_uint64_def
      Let_def)

lemma operator_call_uint8:
  assumes "uint8_arg s = Some data" and "outputs_ready s"
  shows "\<exists>s'. operator_call s = Inr s'
           \<and> returned s' = Some (scalar_uint64 (XXH64 data (length data) 0))"
proof -
  from assms(1) obtain p rest a where a: "inputs s = Some p # rest"
      "lookup (heap s) p = Some a" "elements a = UINT8_elements data"
      "getNumberOfElements a = length data"
    by (rule uint8_argD)
  from assms(2) obtain old outs where o: "outputs s = old # outs"
      "\<forall>q. old = Some q \<longrightarrow> q < length (heap s)"
    by (rule outputs_readyD)
  have "length (snd (release (heap s) p a data)) = length (heap s)"
    by (simp add: release_def)
  with o(2) have "returned \<lparr>heap = destroy (snd (release (heap s) p a data)
                          @ [Some (scalar_uint64 (XXH64 data (length data) 0))]) old,
                inputs = None # rest,
                outputs = Some (length (heap s)) # outs\<rparr>
        = Some (scalar_uint64 (XXH64 data (length data) 0))"
    by (simp add: returned_def lookup_destroy_fresh)
  with operator_call_state [OF a(1-3) o(1)] a(4) show ?thesis
    by simp
qed

lemma lookup_append_old: "q < length h \<Longrightarrow> lookup (h @ [x]) q = lookup h q"
  by (simp add: lookup_def nth_append)

lemma lookup_update:
  "lookup (h[p := v]) q = (if q = p \<and> p < length h then v else lookup h q)"
  by (simp add: lookup_def)

lemma lookup_destroy_other: "old \<noteq> Some q \<Longrightarrow> lookup (destroy h old) q = lookup h q"
  by (cases old) (auto simp: lookup_def split: option.splits)

lemma lookup_Some_less: "lookup h p = Some a \<Longrightarrow> p < length h"
  by (simp add: lookup_def split: if_splits)

text \<open>A call with no argument at all stops at \<open>inputs[0]\<close>.\<close>

lemma no_argument:
  "inputs s = [] \<Longrightarrow> operator_call s = Inl ArgumentList_index_out_of_range"
  by (simp add: operator_call_def ArgumentList_index_def)


section \<open>The value returned\<close>

text \<open>
  C1: for every byte sequence \<open>data\<close> passed as the first argument, the call succeeds
  and the scalar it returns is \<open>XXH64\<close> of exactly these bytes, over their whole length,
  at seed 0.
\<close>

theorem returns_XXH64_seed_0:
  assumes "uint8_arg s = Some data" and "outputs_ready s"
  shows "\<exists>s'. operator_call s = Inr s'
           \<and> returned s' = Some (scalar_uint64 (XXH64 data (length data) 0))"
  using assms by (rule operator_call_uint8)

theorem returns_XXH64_seed_0_witness:
  "\<exists>s'. operator_call
           \<lparr>heap = [Some \<lparr>elements = UINT8_elements [1, 2, 3, 4], dimensions = [2, 2],
                          use_count = 2\<rparr>],
            inputs = [Some 0], outputs = [None]\<rparr> = Inr s'
        \<and> returned s' = Some (scalar_uint64 (XXH64 [1, 2, 3, 4] 4 0))"
proof -
  let ?s = "\<lparr>heap = [Some \<lparr>elements = UINT8_elements [1, 2, 3, 4], dimensions = [2, 2],
                          use_count = 2\<rparr>],
            inputs = [Some 0], outputs = [None]\<rparr>"
  have arg: "uint8_arg ?s = Some [1, 2, 3, 4]"
    by (simp add: uint8_arg_def first_arg_def lookup_def getNumberOfElements_def)
  have out: "outputs_ready ?s"
    by (simp add: outputs_ready_def)
  show ?thesis
    using returns_XXH64_seed_0 [OF arg out] by (simp add: eval_nat_numeral)
qed

text \<open>
  C2: the empty byte sequence is a valid input. A call on a zero-length \<open>uint8\<close> array
  succeeds and returns the published XXH64 value for empty input at seed 0,
  \<open>0xEF46DB3751D8E999\<close>.
\<close>

theorem empty_input_known_answer:
  assumes "uint8_arg s = Some []" and "outputs_ready s"
  shows "\<exists>s'. operator_call s = Inr s'
           \<and> returned s' = Some (scalar_uint64 0xEF46DB3751D8E999)"
  using operator_call_uint8 [OF assms] by (simp add: XXH64_empty)

theorem empty_input_known_answer_witness:
  "\<exists>s'. operator_call
           \<lparr>heap = [Some \<lparr>elements = UINT8_elements [], dimensions = [0, 0],
                          use_count = 2\<rparr>],
            inputs = [Some 0], outputs = [None]\<rparr> = Inr s'
        \<and> returned s' = Some (scalar_uint64 0xEF46DB3751D8E999)"
proof -
  let ?s = "\<lparr>heap = [Some \<lparr>elements = UINT8_elements [], dimensions = [0, 0],
                          use_count = 2\<rparr>],
            inputs = [Some 0], outputs = [None]\<rparr>"
  have arg: "uint8_arg ?s = Some []"
    by (simp add: uint8_arg_def first_arg_def lookup_def getNumberOfElements_def)
  have out: "outputs_ready ?s"
    by (simp add: outputs_ready_def)
  show ?thesis
    using empty_input_known_answer [OF arg out] by simp
qed

text \<open>
  C3: a call on the three bytes \<open>0x61 0x62 0x63\<close> (the string "abc") returns the
  published XXH64 digest of that input at seed 0, \<open>0x44BC2CF5AD770999\<close>.
\<close>

theorem abc_known_answer:
  assumes "uint8_arg s = Some [0x61, 0x62, 0x63]" and "outputs_ready s"
  shows "\<exists>s'. operator_call s = Inr s'
           \<and> returned s' = Some (scalar_uint64 0x44BC2CF5AD770999)"
  using operator_call_uint8 [OF assms] XXH64_abc by (simp add: numeral_3_eq_3)

theorem abc_known_answer_witness:
  "\<exists>s'. operator_call
           \<lparr>heap = [Some \<lparr>elements = UINT8_elements [0x61, 0x62, 0x63], dimensions = [1, 3],
                          use_count = 1\<rparr>],
            inputs = [Some 0], outputs = [None]\<rparr> = Inr s'
        \<and> returned s' = Some (scalar_uint64 0x44BC2CF5AD770999)"
proof -
  let ?s = "\<lparr>heap = [Some \<lparr>elements = UINT8_elements [0x61, 0x62, 0x63], dimensions = [1, 3],
                          use_count = 1\<rparr>],
            inputs = [Some 0], outputs = [None]\<rparr>"
  have arg: "uint8_arg ?s = Some [0x61, 0x62, 0x63]"
    by (simp add: uint8_arg_def first_arg_def lookup_def getNumberOfElements_def)
  have out: "outputs_ready ?s"
    by (simp add: outputs_ready_def)
  show ?thesis
    using abc_known_answer [OF arg out] by simp
qed

section \<open>Errors\<close>

text \<open>
  C4: when an argument is supplied, the call fails with the invalid-input error
  (the host's \<open>InvalidArrayTypeException\<close>) if and only if the argument is not a
  \<open>uint8\<close> array; on every \<open>uint8\<close> array, the empty one included, it succeeds and
  raises no error.
\<close>

theorem InvalidInput_iff_not_uint8:
  assumes "inputs s = Some p # rest" and "lookup (heap s) p = Some a" and "outputs s \<noteq> []"
  shows "(operator_call s = Inl InvalidArrayTypeException \<longleftrightarrow> \<not> is_uint8 (elements a))
       \<and> (is_uint8 (elements a) \<longrightarrow> (\<exists>s'. operator_call s = Inr s'))"
proof (cases "elements a")
  case (UINT8_elements bs)
  from assms(3) obtain old outs where "outputs s = old # outs"
    by (cases "outputs s") auto
  from operator_call_state [OF assms(1,2) UINT8_elements this] UINT8_elements
  show ?thesis by simp
next
  case (UINT64_elements ws)
  with assms(1,2) show ?thesis
    by (simp add: operator_call_def ArgumentList_index_def)
next
  case Other_elements
  with assms(1,2) show ?thesis
    by (simp add: operator_call_def ArgumentList_index_def)
qed

theorem InvalidInput_iff_not_uint8_witness:
  "operator_call
     \<lparr>heap = [Some \<lparr>elements = Other_elements, dimensions = [1, 3], use_count = 2\<rparr>],
      inputs = [Some 0], outputs = [None]\<rparr> = Inl InvalidArrayTypeException"
proof -
  let ?a = "\<lparr>elements = Other_elements, dimensions = [1, 3], use_count = 2\<rparr>"
  let ?s = "\<lparr>heap = [Some ?a], inputs = [Some 0], outputs = [None]\<rparr>"
  have i: "inputs ?s = Some 0 # []" by simp
  have l: "lookup (heap ?s) 0 = Some ?a" by (simp add: lookup_def)
  have out: "outputs ?s \<noteq> []" by simp
  show ?thesis
    using InvalidInput_iff_not_uint8 [OF i l out] by simp
qed

section \<open>Effects on the input\<close>

text \<open>
  C5, as amended: the wrapper never writes to the bytes it hashes, but it takes its
  argument by move and releases its buffer. After a call on a byte array the first
  argument slot is empty. An array that another holder shares keeps its elements and
  its dimensions and stays allocated, with one holder fewer; an array held by the
  argument alone is freed when the call returns. Every other array of the store is as
  it was, except the one the first output slot held before.
\<close>

theorem argument_consumed_caller_data_kept:
  assumes "inputs s = Some p # rest" and "lookup (heap s) p = Some a"
    and "elements a = UINT8_elements data" and "outputs s = old # outs"
    and "old \<noteq> Some p"
  shows "\<exists>s'. operator_call s = Inr s' \<and> inputs s' = None # rest
           \<and> lookup (heap s') p =
               (if use_count a > 1 then Some (a\<lparr>use_count := use_count a - 1\<rparr>) else None)
           \<and> (\<forall>q. q < length (heap s) \<and> q \<noteq> p \<and> old \<noteq> Some q
                  \<longrightarrow> lookup (heap s') q = lookup (heap s) q)"
proof -
  let ?h1 = "snd (release (heap s) p a data)"
  let ?x = "Some (scalar_uint64 (XXH64 data (getNumberOfElements a) 0))"
  have p: "p < length (heap s)"
    using assms(2) by (rule lookup_Some_less)
  have len: "length ?h1 = length (heap s)"
    by (simp add: release_def)
  have h1: "lookup ?h1 q =
      (if q = p then (if use_count a > 1 then Some (a\<lparr>use_count := use_count a - 1\<rparr>) else None)
       else lookup (heap s) q)" for q
    using p by (simp add: release_def lookup_update)
  have final: "lookup (destroy (?h1 @ [?x]) old) q = lookup ?h1 q"
    if "q < length (heap s)" and "old \<noteq> Some q" for q
    using that len by (simp add: lookup_destroy_other lookup_append_old)
  have "lookup (destroy (?h1 @ [?x]) old) p =
      (if use_count a > 1 then Some (a\<lparr>use_count := use_count a - 1\<rparr>) else None)"
    using final [OF p assms(5)] h1 [of p] by simp
  moreover have "\<forall>q. q < length (heap s) \<and> q \<noteq> p \<and> old \<noteq> Some q
      \<longrightarrow> lookup (destroy (?h1 @ [?x]) old) q = lookup (heap s) q"
    using final h1 by simp
  ultimately show ?thesis
    using operator_call_state [OF assms(1-4)] by simp
qed

theorem argument_consumed_caller_data_kept_witness:
  "\<exists>s'. operator_call
           \<lparr>heap = [Some \<lparr>elements = UINT8_elements [7, 8], dimensions = [1, 2], use_count = 2\<rparr>,
                    Some \<lparr>elements = Other_elements, dimensions = [1, 1], use_count = 1\<rparr>],
            inputs = [Some 0, Some 1], outputs = [None]\<rparr> = Inr s'
        \<and> inputs s' = [None, Some 1]
        \<and> lookup (heap s') 0
            = Some \<lparr>elements = UINT8_elements [7, 8], dimensions = [1, 2], use_count = 1\<rparr>
        \<and> lookup (heap s') 1
            = Some \<lparr>elements = Other_elements, dimensions = [1, 1], use_count = 1\<rparr>"
proof -
  let ?a = "\<lparr>elements = UINT8_elements [7, 8], dimensions = [1, 2], use_count = 2\<rparr>"
  let ?b = "\<lparr>elements = Other_elements, dimensions = [1, 1], use_count = 1\<rparr>"
  let ?s = "\<lparr>heap = [Some ?a, Some ?b], inputs = [Some 0, Some 1], outputs = [None]\<rparr>"
  have i: "inputs ?s = Some 0 # [Some 1]" by simp
  have l: "lookup (heap ?s) 0 = Some ?a" by (simp add: lookup_def)
  have e: "elements ?a = UINT8_elements [7, 8]" by simp
  have out: "outputs ?s = None # []" by simp
  have old: "None \<noteq> Some (0::nat)" by simp
  from argument_consumed_caller_data_kept [OF i l e out old]
  obtain s' where s': "operator_call ?s = Inr s'" "inputs s' = [None, Some 1]"
    "lookup (heap s') 0 = Some (?a\<lparr>use_count := 1\<rparr>)"
    "\<forall>q. q < 2 \<and> q \<noteq> 0 \<longrightarrow> lookup (heap s') q = lookup (heap ?s) q"
    by auto
  from s'(4) have "lookup (heap s') 1 = Some ?b"
    by (simp add: lookup_def)
  with s'(1-3) show ?thesis by simp
qed

text \<open>
  C5, as stated (the input buffer is not freed and is unaltered when the call
  returns), fails on an unshared array such as a temporary: after the call its cell
  in the store is free and the argument slot is empty.
\<close>

theorem input_buffer_freed_counterexample:
  "operator_call
     \<lparr>heap = [Some \<lparr>elements = UINT8_elements [0x61, 0x62, 0x63], dimensions = [1, 3],
                    use_count = 1\<rparr>],
      inputs = [Some 0], outputs = [None]\<rparr>
   = Inr \<lparr>heap = [None, Some (scalar_uint64 0x44BC2CF5AD770999)],
          inputs = [None], outputs = [Some 1]\<rparr>"
  by (simp add: operator_call_def ArgumentList_index_def lookup_def release_def
      createScalar_uint64_def getNumberOfElements_def XXH64_abc)

section \<open>Determinism and what the result depends on\<close>

text \<open>
  C6: the result is a function of the bytes alone. Two calls whose first arguments
  hold the same bytes return the same hash, whatever else the two states hold
  (other arrays, addresses, reference counts, further arguments, output slots).
\<close>

theorem hash_deterministic:
  assumes "uint8_arg s1 = Some b1" and "outputs_ready s1"
    and "uint8_arg s2 = Some b2" and "outputs_ready s2"
    and "b1 = b2"
  shows "\<exists>s1' s2' h. operator_call s1 = Inr s1' \<and> operator_call s2 = Inr s2'
           \<and> returned s1' = Some (scalar_uint64 h) \<and> returned s2' = Some (scalar_uint64 h)"
  using operator_call_uint8 [OF assms(1,2)] operator_call_uint8 [OF assms(3,4)] assms(5)
  by auto

theorem hash_deterministic_witness:
  "\<exists>s1' s2' h.
      operator_call
        \<lparr>heap = [Some \<lparr>elements = UINT8_elements [5, 6], dimensions = [1, 2], use_count = 2\<rparr>],
         inputs = [Some 0], outputs = [None]\<rparr> = Inr s1'
    \<and> operator_call
        \<lparr>heap = [Some \<lparr>elements = Other_elements, dimensions = [3, 3], use_count = 1\<rparr>,
                 None,
                 Some \<lparr>elements = UINT8_elements [5, 6], dimensions = [2, 1], use_count = 1\<rparr>],
         inputs = [Some 2, Some 0], outputs = [Some 0, None]\<rparr> = Inr s2'
    \<and> returned s1' = Some (scalar_uint64 h) \<and> returned s2' = Some (scalar_uint64 h)"
proof -
  let ?s1 = "\<lparr>heap = [Some \<lparr>elements = UINT8_elements [5, 6], dimensions = [1, 2],
                           use_count = 2\<rparr>],
             inputs = [Some 0], outputs = [None]\<rparr>"
  let ?s2 = "\<lparr>heap = [Some \<lparr>elements = Other_elements, dimensions = [3, 3], use_count = 1\<rparr>,
                     None,
                     Some \<lparr>elements = UINT8_elements [5, 6], dimensions = [2, 1],
                           use_count = 1\<rparr>],
             inputs = [Some 2, Some 0], outputs = [Some 0, None]\<rparr>"
  have a1: "uint8_arg ?s1 = Some [5, 6]"
    by (simp add: uint8_arg_def first_arg_def lookup_def getNumberOfElements_def)
  have o1: "outputs_ready ?s1"
    by (simp add: outputs_ready_def)
  have a2: "uint8_arg ?s2 = Some [5, 6]"
    by (simp add: uint8_arg_def first_arg_def lookup_def getNumberOfElements_def)
  have o2: "outputs_ready ?s2"
    by (simp add: outputs_ready_def)
  show ?thesis
    using hash_deterministic [OF a1 o1 a2 o2 refl] by simp
qed

text \<open>
  C7: the result is surfaced as a 1-by-1 array of element type \<open>uint64\<close>. Its element
  is the 64-bit result of XXH64 itself: read as an unsigned integer it is the same
  number, between 0 and \<open>2^64 - 1\<close>, with no narrowing and no signed reading.
\<close>

theorem returned_as_uint64:
  assumes "uint8_arg s = Some data" and "outputs_ready s"
  shows "\<exists>s' v. operator_call s = Inr s'
           \<and> returned s' = Some \<lparr>elements = UINT64_elements [v], dimensions = [1, 1],
                                   use_count = 1\<rparr>
           \<and> v = XXH64 data (length data) 0
           \<and> uint v = uint (XXH64 data (length data) 0)
           \<and> 0 \<le> uint v \<and> uint v < 2 ^ 64"
proof -
  have "uint (XXH64 data (length data) 0) < 2 ^ 64"
    using uint_bounded [of "XXH64 data (length data) 0"] by simp
  then show ?thesis
    using operator_call_uint8 [OF assms] by (auto simp: scalar_uint64_def)
qed

theorem returned_as_uint64_witness:
  "\<exists>s' v. operator_call
           \<lparr>heap = [Some \<lparr>elements = UINT8_elements [], dimensions = [0, 0], use_count = 2\<rparr>],
            inputs = [Some 0], outputs = [None]\<rparr> = Inr s'
        \<and> returned s' = Some \<lparr>elements = UINT64_elements [v], dimensions = [1, 1],
                                use_count = 1\<rparr>
        \<and> uint v = 0xEF46DB3751D8E999"
proof -
  let ?s = "\<lparr>heap = [Some \<lparr>elements = UINT8_elements [], dimensions = [0, 0],
                          use_count = 2\<rparr>],
            inputs = [Some 0], outputs = [None]\<rparr>"
  have arg: "uint8_arg ?s = Some []"
    by (simp add: uint8_arg_def first_arg_def lookup_def getNumberOfElements_def)
  have out: "outputs_ready ?s"
    by (simp add: outputs_ready_def)
  show ?thesis
    using returned_as_uint64 [OF arg out] by (auto simp: XXH64_empty)
qed

text \<open>
  C8: for every finite byte sequence the call returns a result. Every loop of the
  hash function is a recursion that terminates (\<open>XXH64_stripes\<close> on the length of the
  remaining input, the two loops of \<open>XXH64_finalize\<close> on the remaining count), and
  the wrapper itself has no loop.
\<close>

theorem call_returns:
  assumes "uint8_arg s = Some data" and "outputs_ready s"
  shows "\<exists>s'. operator_call s = Inr s'"
  using operator_call_uint8 [OF assms] by blast

theorem call_returns_witness:
  "\<exists>s'. operator_call
           \<lparr>heap = [Some \<lparr>elements = UINT8_elements (replicate 40 7), dimensions = [8, 5],
                          use_count = 2\<rparr>],
            inputs = [Some 0], outputs = [None]\<rparr> = Inr s'"
proof -
  let ?s = "\<lparr>heap = [Some \<lparr>elements = UINT8_elements (replicate 40 7), dimensions = [8, 5],
                          use_count = 2\<rparr>],
            inputs = [Some 0], outputs = [None]\<rparr>"
  have arg: "uint8_arg ?s = Some (replicate 40 7)"
    by (simp add: uint8_arg_def first_arg_def lookup_def getNumberOfElements_def)
  have out: "outputs_ready ?s"
    by (simp add: outputs_ready_def)
  show ?thesis
    using call_returns [OF arg out] by simp
qed

text \<open>
  C9: only the first argument matters. Replacing the additional arguments by any
  others changes neither the returned hash nor the store, and the additional
  arguments are left as they were passed.
\<close>

theorem additional_arguments_ignored:
  assumes "uint8_arg s = Some data" and "outputs_ready s"
  shows "\<exists>s1 s2. operator_call s = Inr s1
           \<and> operator_call (s\<lparr>inputs := hd (inputs s) # extra\<rparr>) = Inr s2
           \<and> returned s1 = Some (scalar_uint64 (XXH64 data (length data) 0))
           \<and> returned s2 = returned s1
           \<and> heap s2 = heap s1 \<and> outputs s2 = outputs s1
           \<and> tl (inputs s1) = tl (inputs s) \<and> tl (inputs s2) = extra"
proof -
  from assms(1) obtain p rest a where a: "inputs s = Some p # rest"
      "lookup (heap s) p = Some a" "elements a = UINT8_elements data"
      "getNumberOfElements a = length data"
    by (rule uint8_argD)
  from assms(2) obtain old outs where o: "outputs s = old # outs"
      "\<forall>q. old = Some q \<longrightarrow> q < length (heap s)"
    by (rule outputs_readyD)
  let ?t = "s\<lparr>inputs := hd (inputs s) # extra\<rparr>"
  have t: "inputs ?t = Some p # extra" "lookup (heap ?t) p = Some a" "outputs ?t = old # outs"
    using a o by simp_all
  from operator_call_uint8 [OF assms] obtain s1 where s1: "operator_call s = Inr s1"
    "returned s1 = Some (scalar_uint64 (XXH64 data (length data) 0))"
    by blast
  from s1(1) operator_call_state [OF a(1-3) o(1)] operator_call_state [OF t(1,2) a(3) t(3)] s1(2)
  show ?thesis
    using a(1) by (auto simp: returned_def)
qed

theorem additional_arguments_ignored_witness:
  "\<exists>s1 s2.
      operator_call
        \<lparr>heap = [Some \<lparr>elements = UINT8_elements [9], dimensions = [1, 1], use_count = 2\<rparr>,
                 Some \<lparr>elements = Other_elements, dimensions = [1, 1], use_count = 2\<rparr>],
         inputs = [Some 0], outputs = [None]\<rparr> = Inr s1
    \<and> operator_call
        \<lparr>heap = [Some \<lparr>elements = UINT8_elements [9], dimensions = [1, 1], use_count = 2\<rparr>,
                 Some \<lparr>elements = Other_elements, dimensions = [1, 1], use_count = 2\<rparr>],
         inputs = [Some 0, Some 1, Some 1], outputs = [None]\<rparr> = Inr s2
    \<and> returned s2 = returned s1 \<and> tl (inputs s2) = [Some 1, Some 1]"
proof -
  let ?s = "\<lparr>heap = [Some \<lparr>elements = UINT8_elements [9], dimensions = [1, 1],
                          use_count = 2\<rparr>,
                    Some \<lparr>elements = Other_elements, dimensions = [1, 1], use_count = 2\<rparr>],
            inputs = [Some 0], outputs = [None]\<rparr>"
  have arg: "uint8_arg ?s = Some [9]"
    by (simp add: uint8_arg_def first_arg_def lookup_def getNumberOfElements_def)
  have out: "outputs_ready ?s"
    by (simp add: outputs_ready_def)
  show ?thesis
    using additional_arguments_ignored [OF arg out, of "[Some 1, Some 1]"] by auto
qed

text \<open>
  C10: the shape of the array does not matter. Two \<open>uint8\<close> arrays with the same
  elements in the same linear order return the same hash, whatever their dimensions
  (for example 2-by-3 and 6-by-1).
\<close>

theorem shape_ignored:
  assumes "first_arg s1 = Some a1" and "first_arg s2 = Some a2"
    and "elements a1 = UINT8_elements data" and "elements a2 = UINT8_elements data"
    and "getNumberOfElements a1 = length data" and "getNumberOfElements a2 = length data"
    and "outputs_ready s1" and "outputs_ready s2"
  shows "\<exists>s1' s2'. operator_call s1 = Inr s1' \<and> operator_call s2 = Inr s2'
           \<and> returned s1' = Some (scalar_uint64 (XXH64 data (length data) 0))
           \<and> returned s2' = returned s1'"
proof -
  have "uint8_arg s1 = Some data" and "uint8_arg s2 = Some data"
    using assms(1-6) by (simp_all add: uint8_arg_def)
  from operator_call_uint8 [OF this(1) assms(7)] operator_call_uint8 [OF this(2) assms(8)]
  show ?thesis by auto
qed

theorem shape_ignored_witness:
  "\<exists>s1' s2'.
      operator_call
        \<lparr>heap = [Some \<lparr>elements = UINT8_elements [1, 2, 3, 4, 5, 6], dimensions = [2, 3],
                       use_count = 2\<rparr>],
         inputs = [Some 0], outputs = [None]\<rparr> = Inr s1'
    \<and> operator_call
        \<lparr>heap = [Some \<lparr>elements = UINT8_elements [1, 2, 3, 4, 5, 6], dimensions = [6, 1],
                       use_count = 2\<rparr>],
         inputs = [Some 0], outputs = [None]\<rparr> = Inr s2'
    \<and> returned s2' = returned s1' \<and> returned s1' \<noteq> None"
proof -
  let ?a1 = "\<lparr>elements = UINT8_elements [1, 2, 3, 4, 5, 6], dimensions = [2, 3],
              use_count = 2\<rparr>"
  let ?a2 = "\<lparr>elements = UINT8_elements [1, 2, 3, 4, 5, 6], dimensions = [6, 1],
              use_count = 2\<rparr>"
  let ?s1 = "\<lparr>heap = [Some ?a1], inputs = [Some 0], outputs = [None]\<rparr>"
  let ?s2 = "\<lparr>heap = [Some ?a2], inputs = [Some 0], outputs = [None]\<rparr>"
  have f1: "first_arg ?s1 = Some ?a1" and f2: "first_arg ?s2 = Some ?a2"
    by (simp_all add: first_arg_def lookup_def)
  have e1: "elements ?a1 = UINT8_elements [1, 2, 3, 4, 5, 6]"
    and e2: "elements ?a2 = UINT8_elements [1, 2, 3, 4, 5, 6]"
    by simp_all
  have n1: "getNumberOfElements ?a1 = length [1, 2, 3, 4, 5, 6 :: xxh_u8]"
    and n2: "getNumberOfElements ?a2 = length [1, 2, 3, 4, 5, 6 :: xxh_u8]"
    by (simp_all add: getNumberOfElements_def)
  have o1: "outputs_ready ?s1" and o2: "outputs_ready ?s2"
    by (simp_all add: outputs_ready_def)
  show ?thesis
    using shape_ignored [OF f1 f2 e1 e2 n1 n2 o1 o2] by auto
qed

end
